theory Spec2Isabelle
  imports Complex_Main "HOL-Library.Code_Target_Numeral"
begin

section \<open>JavaScript values met by the token check\<close>

text \<open>
  The session manager is the React component \<^verbatim>\<open>KeycloakProvider\<close>
  (\<^verbatim>\<open>frontend2/src/KeycloakProvider.js\<close>). Its start-up check decodes the stored access
  token with the browser builtins \<^verbatim>\<open>split\<close>, \<^verbatim>\<open>atob\<close> and \<^verbatim>\<open>JSON.parse\<close> and
  then computes with the \<^verbatim>\<open>exp\<close> property. A JavaScript number is an IEEE 754 double:
  \<open>Fin q\<close> stands for the finite double of value \<open>q\<close> (the sign of zero is not kept,
  no operation below tells the two zeros apart), the other three constructors for
  \<^verbatim>\<open>NaN\<close> and the two infinities.
\<close>

datatype jsnum = Fin rat | NaN | PosInf | NegInf

text \<open>
  The result of an arithmetic operation is the exact result rounded to the nearest double,
  ties to the even significand: 53 significant bits, the exponent of the last bit not below
  \<open>-1074\<close>, and an infinity from \<open>2 ^ 1024\<close> on. \<open>ilog2 n\<close> is the position of the
  leading bit of \<open>n\<close>, and \<open>floor_log2 a\<close> the \<open>k\<close> with
  \<open>2 ^ k \<le> a < 2 ^ (k + 1)\<close> for a positive \<open>a\<close>.
\<close>

fun ilog2 :: "nat \<Rightarrow> nat" where
  "ilog2 n = (if n < 2 then 0 else Suc (ilog2 (n div 2)))"

declare ilog2.simps [simp del]

definition pow2 :: "int \<Rightarrow> rat" where
  "pow2 k = (if 0 \<le> k then 2 ^ nat k else 1 / 2 ^ nat (- k))"

definition floor_log2 :: "rat \<Rightarrow> int" where
  "floor_log2 a =
     (if 1 \<le> a then int (ilog2 (nat \<lfloor>a\<rfloor>))
      else - int (Suc (ilog2 (nat (\<lceil>1 / a\<rceil> - 1)))))"

definition round_even :: "rat \<Rightarrow> int" where
  "round_even q =
     (let f = \<lfloor>q\<rfloor>; r = q - of_int f in
      if r < 1 / 2 then f
      else if 1 / 2 < r then f + 1
      else if even f then f else f + 1)"

definition round64 :: "rat \<Rightarrow> jsnum" where
  "round64 x =
     (if x = 0 then Fin 0
      else
        (let a = \<bar>x\<bar>;
             e = max (floor_log2 a - 52) (- 1074);
             v = of_int (round_even (a / pow2 e)) * pow2 e
         in if pow2 1024 \<le> v then (if x < 0 then NegInf else PosInf)
            else Fin (if x < 0 then - v else v)))"

datatype jsval =
    JNull
  | JBool bool
  | JNum jsnum
  | JStr string
  | JArr "jsval list"
  | JObj "(string \<times> jsval) list"

text \<open>The result of a property read: \<^verbatim>\<open>undefined\<close> or a value.\<close>

datatype property = Undefined | Value jsval

text \<open>
  \<^verbatim>\<open>JSON.parse\<close> and the conversion of a string, array or object to a number are
  builtins of the browser, not code of the repository: they are parameters of the model.
  \<open>None\<close> stands for a thrown exception. \<open>JObj\<close> lists the own properties of a
  parsed object, each key once.
\<close>

record builtins =
  JSON_parse :: "string \<Rightarrow> jsval option"
  ToNumber_object :: "jsval \<Rightarrow> jsnum option"

text \<open>\<^verbatim>\<open>tokenData.exp\<close>: a \<^verbatim>\<open>TypeError\<close> on \<^verbatim>\<open>null\<close>, the own property of an
  object, \<^verbatim>\<open>undefined\<close> on every other value.\<close>

fun get_exp :: "jsval \<Rightarrow> property option" where
  "get_exp JNull = None"
| "get_exp (JObj kvs) =
     (case map_of kvs ''exp'' of None \<Rightarrow> Some Undefined | Some v \<Rightarrow> Some (Value v))"
| "get_exp _ = Some Undefined"

text \<open>The conversion applied by \<^verbatim>\<open>*\<close> to its left operand.\<close>

fun ToNumber :: "builtins \<Rightarrow> property \<Rightarrow> jsnum option" where
  "ToNumber B Undefined = Some NaN"
| "ToNumber B (Value JNull) = Some (Fin 0)"
| "ToNumber B (Value (JBool b)) = Some (Fin (if b then 1 else 0))"
| "ToNumber B (Value (JNum n)) = Some n"
| "ToNumber B (Value v) = ToNumber_object B v"

text \<open>\<^verbatim>\<open>x * k\<close> for a positive finite \<open>k\<close>, \<^verbatim>\<open>x - t\<close> for a finite \<open>t\<close>, and
  \<^verbatim>\<open>x < c\<close>: the code uses them with \<open>k = 1000\<close>, the current time and
  \<open>c = 300000\<close>.\<close>

fun js_times :: "jsnum \<Rightarrow> rat \<Rightarrow> jsnum" where
  "js_times (Fin x) k = round64 (x * k)"
| "js_times n k = n"

fun js_minus :: "jsnum \<Rightarrow> rat \<Rightarrow> jsnum" where
  "js_minus (Fin x) t = round64 (x - t)"
| "js_minus n t = n"

fun js_less :: "jsnum \<Rightarrow> rat \<Rightarrow> bool" where
  "js_less (Fin x) c = (x < c)"
| "js_less NegInf c = True"
| "js_less NaN c = False"
| "js_less PosInf c = False"

section \<open>\<^verbatim>\<open>split('.')\<close> and \<^verbatim>\<open>atob\<close>\<close>

text \<open>\<^verbatim>\<open>String.prototype.split\<close> with a one-character separator: the accumulator
  holds the segment being read, reversed.\<close>

fun split_acc :: "char \<Rightarrow> string \<Rightarrow> string \<Rightarrow> string list" where
  "split_acc sep acc [] = [rev acc]"
| "split_acc sep acc (c # cs) =
     (if c = sep then rev acc # split_acc sep [] cs else split_acc sep (c # acc) cs)"

definition split_dot :: "string \<Rightarrow> string list" where
  "split_dot s = split_acc (CHR ''.'') [] s"

text \<open>\<^verbatim>\<open>storedToken.split('.')[1]\<close> handed to \<^verbatim>\<open>atob\<close>: a missing element is
  \<^verbatim>\<open>undefined\<close>, which \<^verbatim>\<open>atob\<close> converts to the string \<^verbatim>\<open>undefined\<close>.\<close>

definition claim_segment :: "string \<Rightarrow> string" where
  "claim_segment t = (case split_dot t of _ # seg # _ \<Rightarrow> seg | _ \<Rightarrow> ''undefined'')"

text \<open>
  \<^verbatim>\<open>atob\<close> is the forgiving base64 decoding of the HTML standard: ASCII whitespace is
  dropped, one or two trailing \<^verbatim>\<open>=\<close> are dropped when the length is a multiple of four,
  a length of 1 modulo 4 or a character outside \<^verbatim>\<open>A-Z a-z 0-9 + /\<close> is an error, and
  left-over bits of the last group are discarded. It is the standard alphabet, not the
  URL-safe one.
\<close>

definition b64_value :: "char \<Rightarrow> nat option" where
  "b64_value c =
     (let n = (of_char c :: nat) in
      if 65 \<le> n \<and> n \<le> 90 then Some (n - 65)
      else if 97 \<le> n \<and> n \<le> 122 then Some (n - 71)
      else if 48 \<le> n \<and> n \<le> 57 then Some (n + 4)
      else if n = 43 then Some 62
      else if n = 47 then Some 63
      else None)"

definition ascii_whitespace :: "char \<Rightarrow> bool" where
  "ascii_whitespace c = ((of_char c :: nat) \<in> {9, 10, 12, 13, 32})"

definition strip_padding :: "string \<Rightarrow> string" where
  "strip_padding d =
     (if length d mod 4 = 0 then
        (case rev d of
           a # b # r \<Rightarrow>
             if a = CHR ''='' \<and> b = CHR ''='' then rev r
             else if a = CHR ''='' then rev (b # r)
             else d
         | _ \<Rightarrow> d)
      else d)"

fun b64_values :: "string \<Rightarrow> nat list option" where
  "b64_values [] = Some []"
| "b64_values (c # cs) =
     (case b64_value c of
        None \<Rightarrow> None
      | Some v \<Rightarrow> (case b64_values cs of None \<Rightarrow> None | Some vs \<Rightarrow> Some (v # vs)))"

fun b64_bytes :: "nat list \<Rightarrow> string" where
  "b64_bytes (a # b # c # d # r) =
     (let n = ((a * 64 + b) * 64 + c) * 64 + d
      in char_of (n div 65536) # char_of (n div 256) # char_of n # b64_bytes r)"
| "b64_bytes [a, b, c] =
     (let n = ((a * 64 + b) * 64 + c) div 4 in [char_of (n div 256), char_of n])"
| "b64_bytes [a, b] = [char_of ((a * 64 + b) div 16)]"
| "b64_bytes _ = []"

definition atob :: "string \<Rightarrow> string option" where
  "atob s =
     (let d = strip_padding (filter (\<lambda>c. \<not> ascii_whitespace c) s) in
      if length d mod 4 = 1 then None
      else (case b64_values d of None \<Rightarrow> None | Some vs \<Rightarrow> Some (b64_bytes vs)))"

section \<open>The expiry check of \<^verbatim>\<open>checkTokenValidity\<close>\<close>

text \<open>
  The synchronous part of \<^verbatim>\<open>checkTokenValidity\<close> (lines 32 to 48), up to its only
  \<^verbatim>\<open>await\<close>: the statements in the \<^verbatim>\<open>try\<close> block either throw, which the
  \<^verbatim>\<open>catch\<close> answers with \<^verbatim>\<open>logout()\<close>, or decide whether a refresh is attempted.
  \<open>now\<close> is \<^verbatim>\<open>new Date().getTime()\<close> in milliseconds.
\<close>

datatype check = Throws | Refresh | Keep

definition near_expiry :: "jsnum \<Rightarrow> rat \<Rightarrow> bool" where
  "near_expiry e now = js_less (js_minus (js_times e 1000) now) 300000"

definition checkTokenValidity :: "builtins \<Rightarrow> rat \<Rightarrow> string \<Rightarrow> check" where
  "checkTokenValidity B now storedToken =
     (case atob (claim_segment storedToken) of
        None \<Rightarrow> Throws
      | Some payload \<Rightarrow>
          (case JSON_parse B payload of
             None \<Rightarrow> Throws
           | Some tokenData \<Rightarrow>
               (case get_exp tokenData of
                  None \<Rightarrow> Throws
                | Some p \<Rightarrow>
                    (case ToNumber B p of
                       None \<Rightarrow> Throws
                     | Some e \<Rightarrow> if near_expiry e now then Refresh else Keep))))"

section \<open>The session state\<close>

text \<open>
  The component's state is its React state (lines 14 to 19) and \<^verbatim>\<open>localStorage\<close>.
  JavaScript runs each handler to its next \<^verbatim>\<open>await\<close> without interruption, so a
  step of the model is one such run; the state setters called during one run take effect
  together, with the render that follows it. \<open>pending\<close> holds the suspended async calls: an
  \<^verbatim>\<open>axios.post\<close> whose response has not arrived, tagged with the function that awaits
  it, or the \<^verbatim>\<open>await refreshToken(...)\<close> of \<^verbatim>\<open>checkTokenValidity\<close> whose operand has
  already returned \<^verbatim>\<open>false\<close>. \<open>trace\<close> records, in order, the effects that leave
  the component: requests to the identity provider and writes to \<^verbatim>\<open>localStorage\<close>.
  Console output is not modelled.
\<close>

datatype grant = PasswordGrant string string | RefreshGrant string

datatype caller = K_login | K_refreshToken | K_updateToken

datatype pending = Post caller grant | RefreshReturnedFalse

text \<open>
  \<open>NotifyLoggedOut\<close> is modelled from the spec: the invocation of a listener registered
  with \<^verbatim>\<open>onLoggedOut\<close> (section 4.5 of the specification). The source has no such
  registration and no statement that calls a listener, so no operation below emits it.
\<close>

datatype effect =
    HttpPost grant
  | SetItem string string
  | RemoveItem string
  | NotifyLoggedOut

record session =
  storage :: "string \<rightharpoonup> string"
  isAuthenticated :: bool
  token :: "string option"
  username :: string
  password :: string
  error :: string
  loading :: bool
  pending :: "pending list"
  trace :: "effect list"

text \<open>The outcome of a request: the two tokens of \<^verbatim>\<open>response.data\<close>, or a rejected
  promise. The source does not look at the kind of failure.\<close>

datatype failure = NetworkUnavailable | InvalidGrant | InvalidCredentials

datatype response = Tokens string string | Failed failure

text \<open>A string read from storage is truthy when it is present and not empty.\<close>

definition truthy :: "string option \<Rightarrow> bool" where
  "truthy v = (case v of None \<Rightarrow> False | Some x \<Rightarrow> x \<noteq> [])"

text \<open>The state of a freshly loaded page whose storage holds \<open>st\<close>.\<close>

definition init :: "(string \<rightharpoonup> string) \<Rightarrow> session" where
  "init st = \<lparr>storage = st, isAuthenticated = False, token = None, username = [],
     password = [], error = [], loading = False, pending = [], trace = []\<rparr>"

subsection \<open>The credential store\<close>

text \<open>
  The two \<^verbatim>\<open>localStorage.setItem\<close> calls that follow every successful grant (lines 75-76,
  112-113, 161-162), and the two \<^verbatim>\<open>getItem\<close> calls with the test \<^verbatim>\<open>if (storedToken)\<close>
  of the start-up effect (lines 23 to 26).
\<close>

definition save :: "string \<Rightarrow> string \<Rightarrow> session \<Rightarrow> session" where
  "save access_token refresh_token s =
     s\<lparr>storage := (storage s)(''token'' \<mapsto> access_token, ''refresh_token'' \<mapsto> refresh_token),
       trace := trace s @ [SetItem ''token'' access_token, SetItem ''refresh_token'' refresh_token]\<rparr>"

definition load :: "(string \<rightharpoonup> string) \<Rightarrow> (string \<times> string option) option" where
  "load st =
     (let storedToken = st ''token''; storedRefreshToken = st ''refresh_token'' in
      case storedToken of
        None \<Rightarrow> None
      | Some t \<Rightarrow> if t = [] then None else Some (t, storedRefreshToken))"

subsection \<open>\<^verbatim>\<open>logout\<close>, \<^verbatim>\<open>login\<close>, \<^verbatim>\<open>refreshToken\<close>, \<^verbatim>\<open>updateToken\<close>\<close>

definition logout :: "session \<Rightarrow> session" where
  "logout s =
     s\<lparr>storage := (storage s)(''token'' := None, ''refresh_token'' := None),
       token := None,
       isAuthenticated := False,
       trace := trace s @ [RemoveItem ''token'', RemoveItem ''refresh_token'']\<rparr>"

text \<open>The statements after a successful refresh grant (lines 74 to 78 and 160 to 164).\<close>

definition store_tokens :: "string \<Rightarrow> string \<Rightarrow> session \<Rightarrow> session" where
  "store_tokens access_token refresh_token s =
     (save access_token refresh_token s)\<lparr>token := Some access_token\<rparr>"

definition post :: "caller \<Rightarrow> grant \<Rightarrow> session \<Rightarrow> session" where
  "post k g s = s\<lparr>pending := pending s @ [Post k g], trace := trace s @ [HttpPost g]\<rparr>"

text \<open>\<^verbatim>\<open>login\<close> up to its \<^verbatim>\<open>await\<close>, and its continuation.\<close>

definition login :: "session \<Rightarrow> session" where
  "login s =
     post K_login (PasswordGrant (username s) (password s)) (s\<lparr>loading := True, error := []\<rparr>)"

definition login_error :: string where
  "login_error = [char_of (195::nat), char_of (137::nat)] @ ''chec de connexion. V''
     @ [char_of (195::nat), char_of (169::nat)] @ ''rifiez vos identifiants.''"

definition login_resume :: "response \<Rightarrow> session \<Rightarrow> session" where
  "login_resume r s =
     (case r of
        Tokens access_token refresh_token \<Rightarrow>
          (store_tokens access_token refresh_token s)\<lparr>isAuthenticated := True, loading := False\<rparr>
      | Failed e \<Rightarrow> s\<lparr>error := login_error, loading := False\<rparr>)"

text \<open>\<^verbatim>\<open>refreshToken(refreshTokenValue)\<close>, called by \<^verbatim>\<open>checkTokenValidity\<close> only: without a
  value it returns \<^verbatim>\<open>false\<close> at once and the caller's \<^verbatim>\<open>await\<close> resumes later.\<close>

definition refreshToken :: "string option \<Rightarrow> session \<Rightarrow> session" where
  "refreshToken refreshTokenValue s =
     (case refreshTokenValue of
        None \<Rightarrow> s\<lparr>pending := pending s @ [RefreshReturnedFalse]\<rparr>
      | Some v \<Rightarrow>
          if v = [] then s\<lparr>pending := pending s @ [RefreshReturnedFalse]\<rparr>
          else post K_refreshToken (RefreshGrant v) s)"

text \<open>\<^verbatim>\<open>keycloak.updateToken(minValidity)\<close> up to its \<^verbatim>\<open>await\<close> (lines 140 to 158).\<close>

definition updateToken :: "rat \<Rightarrow> session \<Rightarrow> session" where
  "updateToken minValidity s =
     (let refreshTokenValue = storage s ''refresh_token'' in
      case refreshTokenValue of
        None \<Rightarrow> s
      | Some v \<Rightarrow> if v = [] then s else post K_updateToken (RefreshGrant v) s)"

definition updateToken_resume :: "response \<Rightarrow> session \<Rightarrow> session" where
  "updateToken_resume r s =
     (case r of
        Tokens access_token refresh_token \<Rightarrow> store_tokens access_token refresh_token s
      | Failed e \<Rightarrow> logout s)"

subsection \<open>The start-up effect\<close>

definition mount :: "builtins \<Rightarrow> rat \<Rightarrow> session \<Rightarrow> session" where
  "mount B now s =
     (let storedToken = storage s ''token''; storedRefreshToken = storage s ''refresh_token'' in
      case storedToken of
        None \<Rightarrow> s
      | Some t \<Rightarrow>
          if t = [] then s
          else
            (let s1 = s\<lparr>token := Some t, isAuthenticated := True\<rparr> in
             case checkTokenValidity B now t of
               Throws \<Rightarrow> logout s1
             | Refresh \<Rightarrow> refreshToken storedRefreshToken s1
             | Keep \<Rightarrow> s1))"

subsection \<open>Events\<close>

text \<open>
  \<open>Respond i r\<close> is the arrival of the response to the \<open>i\<close>-th suspended request,
  \<open>Resume i\<close> the continuation of \<^verbatim>\<open>checkTokenValidity\<close> after \<^verbatim>\<open>refreshToken\<close>
  returned \<^verbatim>\<open>false\<close>. A failed \<^verbatim>\<open>refreshToken\<close> request returns \<^verbatim>\<open>false\<close> to that
  same \<^verbatim>\<open>await\<close>. \<open>TimerFire\<close> is the 30-second interval of \<^verbatim>\<open>App\<close>, which calls
  \<^verbatim>\<open>keycloak.updateToken(60)\<close>; \<^verbatim>\<open>App\<close> is rendered, and its interval exists, only
  while \<^verbatim>\<open>isAuthenticated\<close> holds (line 174). The other events are calls of the
  component's functions and are possible in every state. An event that names no suspended
  call of its kind changes nothing.
\<close>

datatype event =
    Mount rat
  | TypeUsername string
  | TypePassword string
  | Login
  | Logout
  | UpdateToken rat
  | TimerFire
  | Respond nat response
  | Resume nat

definition drop_nth :: "nat \<Rightarrow> 'a list \<Rightarrow> 'a list" where
  "drop_nth i xs = take i xs @ drop (Suc i) xs"

definition respond :: "nat \<Rightarrow> response \<Rightarrow> session \<Rightarrow> session" where
  "respond i r s =
     (if i < length (pending s) then
        (case pending s ! i of
           Post K_login g \<Rightarrow> login_resume r (s\<lparr>pending := drop_nth i (pending s)\<rparr>)
         | Post K_updateToken g \<Rightarrow> updateToken_resume r (s\<lparr>pending := drop_nth i (pending s)\<rparr>)
         | Post K_refreshToken g \<Rightarrow>
             (case r of
                Tokens access_token refresh_token \<Rightarrow>
                  store_tokens access_token refresh_token (s\<lparr>pending := drop_nth i (pending s)\<rparr>)
              | Failed e \<Rightarrow> s\<lparr>pending := (pending s)[i := RefreshReturnedFalse]\<rparr>)
         | RefreshReturnedFalse \<Rightarrow> s)
      else s)"

definition resume :: "nat \<Rightarrow> session \<Rightarrow> session" where
  "resume i s =
     (if i < length (pending s) then
        (case pending s ! i of
           RefreshReturnedFalse \<Rightarrow> logout (s\<lparr>pending := drop_nth i (pending s)\<rparr>)
         | Post k g \<Rightarrow> s)
      else s)"

fun step :: "builtins \<Rightarrow> session \<Rightarrow> event \<Rightarrow> session" where
  "step B s (Mount now) = mount B now s"
| "step B s (TypeUsername u) = s\<lparr>username := u\<rparr>"
| "step B s (TypePassword p) = s\<lparr>password := p\<rparr>"
| "step B s Login = login s"
| "step B s Logout = logout s"
| "step B s (UpdateToken m) = updateToken m s"
| "step B s TimerFire = (if isAuthenticated s then updateToken 60 s else s)"
| "step B s (Respond i r) = respond i r s"
| "step B s (Resume i) = resume i s"

definition run :: "builtins \<Rightarrow> session \<Rightarrow> event list \<Rightarrow> session" where
  "run B s es = foldl (step B) s es"

text \<open>The renewal calls in flight: the suspended refresh-grant requests.\<close>

fun is_renewal :: "pending \<Rightarrow> bool" where
  "is_renewal (Post k (RefreshGrant v)) = True"
| "is_renewal _ = False"

definition renewals_in_flight :: "session \<Rightarrow> nat" where
  "renewals_in_flight s = length (filter is_renewal (pending s))"

subsection \<open>The object handed to the rest of the application\<close>

text \<open>
  The \<^verbatim>\<open>keycloak\<close> object (lines 134 to 171) is rebuilt at every render and given to the
  children through \<^verbatim>\<open>AuthContext.Provider\<close>; while \<^verbatim>\<open>isAuthenticated\<close> is false the
  login form is rendered instead and nothing is provided (lines 174 and 224 to 228).
\<close>

record facade =
  kc_token :: "string option"
  kc_refreshToken :: "string option"
  kc_authenticated :: bool
  kc_login :: "session \<Rightarrow> session"
  kc_logout :: "session \<Rightarrow> session"
  kc_updateToken :: "rat \<Rightarrow> session \<Rightarrow> session"

text \<open>
  The field \<^verbatim>\<open>refreshToken\<close> is the storage entry as it was read when the object was
  built (line 136); storage may have changed since without a new render, so that value
  \<open>r\<close> is a parameter here. The other two data fields are the React state.
\<close>

definition keycloak :: "string option \<Rightarrow> session \<Rightarrow> facade" where
  "keycloak r s =
     \<lparr>kc_token = token s,
      kc_refreshToken = r,
      kc_authenticated = isAuthenticated s,
      kc_login = login,
      kc_logout = logout,
      kc_updateToken = updateToken\<rparr>"

definition provided :: "string option \<Rightarrow> session \<Rightarrow> facade option" where
  "provided r s = (if isAuthenticated s then Some (keycloak r s) else None)"

subsection \<open>Observations\<close>

text \<open>What a collaborator reads as the credential, \<^verbatim>\<open>keycloak?.token\<close>: the token of the
  provided object, when one is provided.\<close>

definition exposed :: "session \<Rightarrow> string option" where
  "exposed s = (if isAuthenticated s then token s else None)"

text \<open>The logged-out state: no token in memory, the flag down and neither entry in
  storage.\<close>

definition logged_out :: "session \<Rightarrow> bool" where
  "logged_out s =
     (\<not> isAuthenticated s \<and> token s = None \<and>
      storage s ''token'' = None \<and> storage s ''refresh_token'' = None)"

text \<open>The state left by a failed renewal: the answered request has left the pending calls
  and \<^verbatim>\<open>logout\<close> has run.\<close>

abbreviation after_failure :: "nat \<Rightarrow> session \<Rightarrow> session" where
  "after_failure i s \<equiv> logout (s\<lparr>pending := drop_nth i (pending s)\<rparr>)"

text \<open>The number of listener invocations among the effects so far.\<close>

definition listener_calls :: "session \<Rightarrow> nat" where
  "listener_calls s = count_list (trace s) NotifyLoggedOut"

section \<open>A concrete session\<close>

text \<open>
  The values of \<^verbatim>\<open>JSON.parse\<close> on the payload texts used in the evaluations below:
  the empty object, \<^verbatim>\<open>null\<close> and an object with \<^verbatim>\<open>exp\<close> equal to 3600. The
  only other text parsed below is \<^verbatim>\<open>hi\<close>, which is not JSON. The evaluations do not
  reach the conversion of objects to numbers. \<open>access_3600\<close> is a three-segment token
  whose middle segment is the base64 text of the second payload.
\<close>

definition payload_3600 :: string where
  "payload_3600 = ''{'' @ [char_of (34::nat)] @ ''exp'' @ [char_of (34::nat)] @ '':3600}''"

definition sample_parse :: "string \<Rightarrow> jsval option" where
  "sample_parse p =
     (if p = ''{}'' then Some (JObj [])
      else if p = ''null'' then Some JNull
      else if p = payload_3600 then Some (JObj [(''exp'', JNum (Fin 3600))])
      else None)"

definition sample_builtins :: builtins where
  "sample_builtins = \<lparr>JSON_parse = sample_parse, ToNumber_object = (\<lambda>v. Some NaN)\<rparr>"

definition access_3600 :: string where
  "access_3600 = ''h.eyJleHAiOjM2MDB9.s''"

text \<open>A user logs in on an empty store and the identity provider answers with
  \<open>access_3600\<close> and a renewal token.\<close>

definition logged_in :: session where
  "logged_in = run sample_builtins (init Map.empty)
     [TypeUsername ''alice'', TypePassword ''secret'', Login, Respond 0 (Tokens access_3600 ''r1'')]"

text \<open>The same session after one timer fire: a renewal is in flight.\<close>

definition renewing :: session where
  "renewing = step sample_builtins logged_in TimerFire"

text \<open>A page load at time 3595000 on a store that holds the same two tokens: the access
  token expires within five minutes and the start-up check has a renewal in flight.\<close>

definition stored :: "string \<rightharpoonup> string" where
  "stored = [''token'' \<mapsto> access_3600, ''refresh_token'' \<mapsto> ''r1'']"

definition reloaded :: session where
  "reloaded = step sample_builtins (init stored) (Mount 3595000)"

text \<open>A user on an empty store has submitted the login form and the request is in
  flight.\<close>

definition authenticating :: session where
  "authenticating = run sample_builtins (init Map.empty)
     [TypeUsername ''alice'', TypePassword ''wrong'', Login]"


text \<open>A store whose access token is not a token at all.\<close>

definition corrupt :: "string \<rightharpoonup> string" where
  "corrupt = [''token'' \<mapsto> ''garbage'']"

section \<open>Basic facts\<close>

lemma logout_simps:
  "storage (logout s) ''token'' = None"
  "storage (logout s) ''refresh_token'' = None"
  "token (logout s) = None"
  "isAuthenticated (logout s) = False"
  "pending (logout s) = pending s"
  "error (logout s) = error s"
  "trace (logout s) = trace s @ [RemoveItem ''token'', RemoveItem ''refresh_token'']"
  by (simp_all add: logout_def)

lemma post_simps:
  "storage (post k g s) = storage s"
  "token (post k g s) = token s"
  "isAuthenticated (post k g s) = isAuthenticated s"
  "error (post k g s) = error s"
  "pending (post k g s) = pending s @ [Post k g]"
  "trace (post k g s) = trace s @ [HttpPost g]"
  by (simp_all add: post_def)

lemma updateToken_present:
  "storage s ''refresh_token'' = Some v \<Longrightarrow> v \<noteq> [] \<Longrightarrow>
   updateToken m s = post K_updateToken (RefreshGrant v) s"
  by (simp add: updateToken_def)

lemma updateToken_absent:
  "\<not> truthy (storage s ''refresh_token'') \<Longrightarrow> updateToken m s = s"
  by (simp add: updateToken_def truthy_def split: option.splits)

lemma respond_updateToken_failed:
  "i < length (pending s) \<Longrightarrow> pending s ! i = Post K_updateToken g \<Longrightarrow>
   respond i (Failed e) s = logout (s\<lparr>pending := drop_nth i (pending s)\<rparr>)"
  by (simp add: respond_def updateToken_resume_def)

lemma respond_refreshToken_failed:
  "i < length (pending s) \<Longrightarrow> pending s ! i = Post K_refreshToken g \<Longrightarrow>
   respond i (Failed e) s = s\<lparr>pending := (pending s)[i := RefreshReturnedFalse]\<rparr>"
  by (simp add: respond_def)

lemma drop_nth_update: "i < length xs \<Longrightarrow> drop_nth i (xs[i := y]) = drop_nth i xs"
  by (simp add: drop_nth_def)

lemma resume_after_failed:
  "i < length (pending s) \<Longrightarrow> pending s ! i = Post K_refreshToken g \<Longrightarrow>
   resume i (respond i (Failed e) s) = logout (s\<lparr>pending := drop_nth i (pending s)\<rparr>)"
  by (simp add: respond_refreshToken_failed resume_def drop_nth_update)

lemma resume_returned_false:
  "i < length (pending s) \<Longrightarrow>
   resume i (s\<lparr>pending := (pending s)[i := RefreshReturnedFalse]\<rparr>) =
   logout (s\<lparr>pending := drop_nth i (pending s)\<rparr>)"
  by (simp add: resume_def drop_nth_update)

lemma run_Nil: "run B s [] = s"
  by (simp add: run_def)

lemma run_Cons: "run B s (e # es) = run B (step B s e) es"
  by (simp add: run_def)

lemma atob_undefined: "atob ''undefined'' = None"
  by (simp add: atob_def strip_padding_def ascii_whitespace_def b64_value_def)

lemma claim_segment_short: "length (split_dot t) < 2 \<Longrightarrow> claim_segment t = ''undefined''"
  by (auto simp: claim_segment_def split: list.splits)

lemma check_empty: "checkTokenValidity B now [] = Throws"
  by (simp add: checkTokenValidity_def claim_segment_def split_dot_def atob_undefined)

lemma claim_segment_access_3600: "claim_segment access_3600 = ''eyJleHAiOjM2MDB9''"
  by (simp add: claim_segment_def access_3600_def split_dot_def)

lemma atob_payload_3600: "atob ''eyJleHAiOjM2MDB9'' = Some payload_3600"
  by (simp add: atob_def strip_padding_def ascii_whitespace_def b64_value_def payload_3600_def
      char_of_def bit_Suc_0_iff)

lemma ilog2_numeral:
  "ilog2 (numeral k) = (if numeral k < (2::nat) then 0 else Suc (ilog2 (numeral k div 2)))"
  by (rule ilog2.simps)

lemma ilog2_small: "ilog2 0 = 0" "ilog2 1 = 0" "ilog2 (Suc 0) = 0"
  by (simp_all add: ilog2.simps)

lemmas round64_eval =
  round64_def floor_log2_def round_even_def pow2_def ilog2_numeral ilog2_small Let_def

lemma round64_3600000: "round64 3600000 = Fin 3600000"
  by (simp add: round64_eval)

lemma round64_5000: "round64 5000 = Fin 5000"
  by (simp add: round64_eval)

lemma near_expiry_3600:
  "\<not> near_expiry (Fin 3600) 0" "near_expiry (Fin 3600) 3595000"
  by (simp_all add: near_expiry_def round64_3600000 round64_5000)

lemma check_access_3600: "checkTokenValidity sample_builtins 0 access_3600 = Keep"
  by (simp add: checkTokenValidity_def claim_segment_access_3600 atob_payload_3600
      sample_builtins_def sample_parse_def near_expiry_3600 payload_3600_def)

lemma check_access_3600_late: "checkTokenValidity sample_builtins 3595000 access_3600 = Refresh"
  by (simp add: checkTokenValidity_def claim_segment_access_3600 atob_payload_3600
      sample_builtins_def sample_parse_def near_expiry_3600 payload_3600_def)

lemma logged_in_fields:
  "isAuthenticated logged_in"
  "token logged_in = Some access_3600"
  "pending logged_in = []"
  "storage logged_in ''token'' = Some access_3600"
  "storage logged_in ''refresh_token'' = Some ''r1''"
  "trace logged_in = [HttpPost (PasswordGrant ''alice'' ''secret''),
     SetItem ''token'' access_3600, SetItem ''refresh_token'' ''r1'']"
  by (simp_all add: logged_in_def run_def init_def login_def post_def respond_def drop_nth_def
      login_resume_def store_tokens_def save_def)

lemma step_no_listener: "listener_calls (step B s e) = listener_calls s"
proof (cases e)
  case (Mount now)
  then show ?thesis
    by (simp add: listener_calls_def mount_def logout_def refreshToken_def post_def Let_def
        split: option.splits check.splits)
next
  case (Respond i r)
  then show ?thesis
    by (simp add: listener_calls_def respond_def login_resume_def updateToken_resume_def
        store_tokens_def save_def logout_def
        split: pending.splits caller.splits response.splits)
next
  case (Resume i)
  then show ?thesis
    by (simp add: listener_calls_def resume_def logout_def split: pending.splits)
qed (simp_all add: listener_calls_def login_def logout_def updateToken_def post_def Let_def
      split: option.splits)

lemma logged_out_logout: "logged_out (logout s)"
  by (simp add: logged_out_def logout_simps)

lemma exposed_provided:
  "exposed s = (case provided r s of None \<Rightarrow> None | Some k \<Rightarrow> kc_token k)"
  by (simp add: exposed_def provided_def keycloak_def)

lemma exposed_logout: "exposed (logout s) = None" "provided r (logout s) = None"
  by (simp_all add: exposed_def provided_def logout_simps)

lemma timer_after_logout: "step B (logout s) TimerFire = logout s"
  by (simp add: logout_simps)

lemma updateToken_after_logout: "updateToken m (logout s) = logout s"
  by (simp add: updateToken_def logout_simps)

lemma mount_present:
  "storage s ''token'' = Some t \<Longrightarrow> t \<noteq> [] \<Longrightarrow>
   mount B now s =
     (case checkTokenValidity B now t of
        Throws \<Rightarrow> logout (s\<lparr>token := Some t, isAuthenticated := True\<rparr>)
      | Refresh \<Rightarrow>
          refreshToken (storage s ''refresh_token'') (s\<lparr>token := Some t, isAuthenticated := True\<rparr>)
      | Keep \<Rightarrow> s\<lparr>token := Some t, isAuthenticated := True\<rparr>)"
  by (simp add: mount_def Let_def)


lemma mount_absent: "\<not> truthy (storage s ''token'') \<Longrightarrow> mount B now s = s"
  by (simp add: mount_def truthy_def split: option.splits)

lemma refreshToken_present:
  "v \<noteq> [] \<Longrightarrow> refreshToken (Some v) s = post K_refreshToken (RefreshGrant v) s"
  by (simp add: refreshToken_def)

lemma reloaded_eq:
  "reloaded = post K_refreshToken (RefreshGrant ''r1'')
     ((init stored)\<lparr>token := Some access_3600, isAuthenticated := True\<rparr>)"
proof -
  have "storage (init stored) ''token'' = Some access_3600" "access_3600 \<noteq> []"
    "storage (init stored) ''refresh_token'' = Some ''r1''"
    by (simp_all add: init_def stored_def access_3600_def)
  then show ?thesis
    by (simp add: reloaded_def mount_present check_access_3600_late refreshToken_present)
qed

lemma reloaded_fields:
  "isAuthenticated reloaded"
  "token reloaded = Some access_3600"
  "pending reloaded = [Post K_refreshToken (RefreshGrant ''r1'')]"
  "storage reloaded ''token'' = Some access_3600"
  "storage reloaded ''refresh_token'' = Some ''r1''"
  "trace reloaded = [HttpPost (RefreshGrant ''r1'')]"
  by (simp_all add: reloaded_eq post_simps init_def stored_def)

lemma listener_calls_reloaded: "listener_calls reloaded = 0"
  by (simp add: listener_calls_def reloaded_fields)

lemma listener_calls_logout: "listener_calls (logout s) = listener_calls s"
  by (simp add: listener_calls_def logout_simps)

lemma run_no_listener: "listener_calls (run B s es) = listener_calls s"
  by (induction es arbitrary: s) (simp_all add: run_Nil run_Cons step_no_listener)

lemma listener_calls_logged_in: "listener_calls logged_in = 0"
  by (simp add: listener_calls_def logged_in_fields)

lemma renewing_step:
  "step sample_builtins logged_in TimerFire = post K_updateToken (RefreshGrant ''r1'') logged_in"
  by (simp add: logged_in_fields updateToken_present)

lemma renewing_fields:
  "isAuthenticated renewing"
  "token renewing = Some access_3600"
  "pending renewing = [Post K_updateToken (RefreshGrant ''r1'')]"
  "storage renewing ''token'' = Some access_3600"
  "storage renewing ''refresh_token'' = Some ''r1''"
  by (simp_all only: renewing_def renewing_step post_simps logged_in_fields append_Nil)

lemma listener_calls_renewing: "listener_calls renewing = 0"
  by (simp only: renewing_def step_no_listener listener_calls_logged_in)

lemma failed_renewal:
  "run sample_builtins logged_in [TimerFire, Respond 0 (Failed e)] =
   logout ((post K_updateToken (RefreshGrant ''r1'') logged_in)\<lparr>pending := []\<rparr>)"
proof -
  let ?s = "post K_updateToken (RefreshGrant ''r1'') logged_in"
  have p: "pending ?s = [Post K_updateToken (RefreshGrant ''r1'')]"
    by (simp add: post_simps logged_in_fields)
  have "respond 0 (Failed e) ?s = logout (?s\<lparr>pending := drop_nth 0 (pending ?s)\<rparr>)"
    by (rule respond_updateToken_failed) (simp_all add: p)
  then have "respond 0 (Failed e) ?s = logout (?s\<lparr>pending := []\<rparr>)"
    by (simp add: p drop_nth_def)
  then show ?thesis
    by (simp only: run_Cons run_Nil renewing_step step.simps(8))
qed

lemma check_Throws_atob: "atob (claim_segment t) = None \<Longrightarrow> checkTokenValidity B now t = Throws"
  by (simp add: checkTokenValidity_def)

lemma check_Throws_parse:
  "atob (claim_segment t) = Some p \<Longrightarrow> JSON_parse B p = None \<Longrightarrow>
   checkTokenValidity B now t = Throws"
  by (simp add: checkTokenValidity_def)

lemma check_segment_only:
  "claim_segment t' = claim_segment t \<Longrightarrow> checkTokenValidity B now t' = checkTokenValidity B now t"
  by (simp add: checkTokenValidity_def)

lemma check_numeric_exp:
  "atob (claim_segment t) = Some p \<Longrightarrow> JSON_parse B p = Some (JObj kvs) \<Longrightarrow>
   map_of kvs ''exp'' = Some (JNum n) \<Longrightarrow>
   checkTokenValidity B now t = (if near_expiry n now then Refresh else Keep)"
  by (simp add: checkTokenValidity_def)

lemma claim_segment_two: "claim_segment ''h.eyJleHAiOjM2MDB9'' = ''eyJleHAiOjM2MDB9''"
  by (simp add: claim_segment_def split_dot_def)

lemma claim_segment_spaced: "claim_segment ''h.eyJleHAi OjM2MDB9.s'' = ''eyJleHAi OjM2MDB9''"
  by (simp add: claim_segment_def split_dot_def)

lemma atob_spaced: "atob ''eyJleHAi OjM2MDB9'' = Some payload_3600"
  by (simp add: atob_def strip_padding_def ascii_whitespace_def b64_value_def payload_3600_def
      char_of_def bit_Suc_0_iff)

lemma atob_e30: "atob ''e30'' = Some ''{}''"
  by (simp add: atob_def strip_padding_def ascii_whitespace_def b64_value_def char_of_def
      bit_Suc_0_iff)

lemma atob_hi: "atob ''aGk'' = Some ''hi''"
  by (simp add: atob_def strip_padding_def ascii_whitespace_def b64_value_def char_of_def
      bit_Suc_0_iff)

lemma parse_payload_3600:
  "JSON_parse sample_builtins payload_3600 = Some (JObj [(''exp'', JNum (Fin 3600))])"
  by (simp add: sample_builtins_def sample_parse_def payload_3600_def)

lemma login_error_nonempty: "login_error \<noteq> []"
  by (simp add: login_error_def)

lemma respond_login_failed:
  "i < length (pending t) \<Longrightarrow> pending t ! i = Post K_login g \<Longrightarrow>
   respond i (Failed e) t =
     t\<lparr>pending := drop_nth i (pending t), error := login_error, loading := False\<rparr>"
  by (simp add: respond_def login_resume_def)

lemma login_then_rejected:
  "run B s [Login, Respond (length (pending s)) (Failed e)] =
     s\<lparr>error := login_error, loading := False,
       trace := trace s @ [HttpPost (PasswordGrant (username s) (password s))]\<rparr>"
proof -
  let ?g = "PasswordGrant (username s) (password s)"
  have p: "pending (login s) = pending s @ [Post K_login ?g]"
    by (simp add: login_def post_simps)
  have "respond (length (pending s)) (Failed e) (login s) =
      (login s)\<lparr>pending := drop_nth (length (pending s)) (pending (login s)),
        error := login_error, loading := False\<rparr>"
    by (rule respond_login_failed [where g = ?g]) (simp_all add: p)
  then show ?thesis
    by (simp add: run_Cons run_Nil p drop_nth_def login_def post_def)
qed

lemma authenticating_fields:
  "\<not> isAuthenticated authenticating"
  "logged_out authenticating"
  "pending authenticating = [Post K_login (PasswordGrant ''alice'' ''wrong'')]"
  "trace authenticating = [HttpPost (PasswordGrant ''alice'' ''wrong'')]"
  "loading authenticating"
  by (simp_all add: authenticating_def run_def init_def login_def post_def logged_out_def)

lemma check_garbage: "checkTokenValidity B now ''garbage'' = Throws"
  by (simp add: checkTokenValidity_def claim_segment_def split_dot_def atob_undefined)




section \<open>The argument of \<^verbatim>\<open>updateToken\<close>\<close>

text \<open>
  C10. \<^verbatim>\<open>updateToken\<close> does not look at its argument: two calls with different arguments
  in the same state give the same state. Whenever storage holds a non-empty renewal token
  the call sends a refresh request; neither the clock nor the access token is read.
\<close>

theorem updateToken_ignores_minValidity:
  "updateToken m1 s = updateToken m2 s \<and>
   (storage s ''refresh_token'' = Some v \<and> v \<noteq> [] \<longrightarrow>
      pending (updateToken m1 s) = pending s @ [Post K_updateToken (RefreshGrant v)] \<and>
      trace (updateToken m1 s) = trace s @ [HttpPost (RefreshGrant v)])"
  by (simp add: updateToken_def post_def)

text \<open>At \<open>logged_in\<close>, whose access token is far from expiry at time 0.\<close>

theorem updateToken_ignores_minValidity_witness:
  "storage logged_in ''refresh_token'' = Some ''r1'' \<and> ''r1'' \<noteq> [] \<and>
   checkTokenValidity sample_builtins 0 access_3600 = Keep \<and>
   updateToken 60 logged_in = updateToken 0 logged_in \<and>
   pending (updateToken 60 logged_in) = [Post K_updateToken (RefreshGrant ''r1'')]"
proof -
  have h: "storage logged_in ''refresh_token'' = Some ''r1'' \<and> ''r1'' \<noteq> []"
    by (simp add: logged_in_fields)
  have e: "updateToken 60 logged_in = updateToken 0 logged_in"
    using updateToken_ignores_minValidity [of 60 logged_in 0 "''r1''"] by (rule conjunct1)
  have p: "pending (updateToken 60 logged_in) = pending logged_in @ [Post K_updateToken (RefreshGrant ''r1'')]"
    using updateToken_ignores_minValidity [of 60 logged_in 0 "''r1''"] h by blast
  show ?thesis
    using h e p check_access_3600 by (simp only: logged_in_fields append_Nil simp_thms)
qed

section \<open>Renewal calls in flight\<close>

text \<open>
  C1, as stated, is false: nothing coalesces renewal triggers. In the session \<open>logged_in\<close>
  two timer fires in a row leave two refresh requests in flight.
\<close>

theorem two_triggers_two_requests:
  "renewals_in_flight (run sample_builtins logged_in [TimerFire, TimerFire]) = 2"
  by (simp add: run_def logged_in_fields updateToken_def post_def renewals_in_flight_def)

text \<open>
  C1, amended: in an authenticated session whose storage holds a non-empty renewal token,
  every timer fire sends a refresh request of its own, also while earlier ones are in
  flight: \<open>n\<close> fires with no response in between add \<open>n\<close> renewal calls in flight and
  \<open>n\<close> refresh requests to the trace.
\<close>

theorem timer_fires_not_coalesced:
  "isAuthenticated s \<Longrightarrow> storage s ''refresh_token'' = Some v \<Longrightarrow> v \<noteq> [] \<Longrightarrow>
   renewals_in_flight (run B s (replicate n TimerFire)) = renewals_in_flight s + n \<and>
   trace (run B s (replicate n TimerFire)) = trace s @ replicate n (HttpPost (RefreshGrant v))"
proof (induction n arbitrary: s)
  case 0
  then show ?case by (simp add: run_Nil)
next
  case (Suc n)
  let ?s = "post K_updateToken (RefreshGrant v) s"
  have st: "step B s TimerFire = ?s"
    using Suc.prems by (simp add: updateToken_present)
  have "isAuthenticated ?s" "storage ?s ''refresh_token'' = Some v"
    using Suc.prems by (simp_all add: post_simps)
  then have ih: "renewals_in_flight (run B ?s (replicate n TimerFire)) = renewals_in_flight ?s + n \<and>
      trace (run B ?s (replicate n TimerFire)) = trace ?s @ replicate n (HttpPost (RefreshGrant v))"
    using Suc.IH [of ?s] Suc.prems(3) by simp
  have r: "renewals_in_flight ?s = Suc (renewals_in_flight s)"
    by (simp add: renewals_in_flight_def post_simps)
  have "run B s (replicate (Suc n) TimerFire) = run B ?s (replicate n TimerFire)"
    by (simp only: replicate_Suc run_Cons st)
  then show ?case
    using ih r by (simp add: post_simps)
qed

text \<open>The amended statement at \<open>logged_in\<close> with two timer fires.\<close>

theorem timer_fires_not_coalesced_witness:
  "isAuthenticated logged_in \<and> storage logged_in ''refresh_token'' = Some ''r1'' \<and> ''r1'' \<noteq> [] \<and>
   renewals_in_flight (run sample_builtins logged_in (replicate 2 TimerFire)) = 2"
  using timer_fires_not_coalesced [of logged_in "''r1''" sample_builtins 2]
  by (simp add: logged_in_fields renewals_in_flight_def)

section \<open>A renewal that fails\<close>

text \<open>
  C2, as stated, is false: the source keeps no count of soft failures. In the session
  \<open>renewing\<close> the answer \<open>NetworkUnavailable\<close> to the refresh request logs the user out
  at once: nothing is exposed any more and the stored token is gone.
\<close>

theorem soft_failure_logs_out:
  "\<not> isAuthenticated (run sample_builtins logged_in [TimerFire, Respond 0 (Failed NetworkUnavailable)]) \<and>
   exposed (run sample_builtins logged_in [TimerFire, Respond 0 (Failed NetworkUnavailable)]) = None \<and>
   storage (run sample_builtins logged_in [TimerFire, Respond 0 (Failed NetworkUnavailable)]) ''token'' = None"
  by (simp add: failed_renewal logout_simps exposed_logout)

text \<open>
  C2, amended: a renewal attempt that fails logs the user out, whatever the failure
  \<open>e\<close>, \<open>NetworkUnavailable\<close> included. For a request sent by \<^verbatim>\<open>updateToken\<close> the
  failure response itself leaves the state \<open>after_failure i s\<close>; for one sent by the
  start-up check the response only makes \<^verbatim>\<open>refreshToken\<close> return \<^verbatim>\<open>false\<close>, and the
  resumed check leaves that same state. In it the session is logged out and no credential
  is exposed. Nothing is retried: the failed request has left the pending calls and no
  other has joined them, the only effects are the two removals from storage, and the next
  timer fire, like any call of \<^verbatim>\<open>updateToken\<close>, changes nothing. The state does not
  depend on \<open>e\<close> or on earlier failures.
\<close>

theorem renewal_failure_logs_out:
  assumes "i < length (pending s)"
  shows
    "(pending s ! i = Post K_updateToken g \<longrightarrow> step B s (Respond i (Failed e)) = after_failure i s) \<and>
     (pending s ! i = Post K_refreshToken g \<longrightarrow>
        step B s (Respond i (Failed e)) = s\<lparr>pending := (pending s)[i := RefreshReturnedFalse]\<rparr> \<and>
        run B s [Respond i (Failed e), Resume i] = after_failure i s) \<and>
     logged_out (after_failure i s) \<and> exposed (after_failure i s) = None \<and>
     pending (after_failure i s) = drop_nth i (pending s) \<and>
     trace (after_failure i s) = trace s @ [RemoveItem ''token'', RemoveItem ''refresh_token''] \<and>
     step B (after_failure i s) TimerFire = after_failure i s \<and>
     updateToken m (after_failure i s) = after_failure i s"
  using assms
  by (simp add: respond_updateToken_failed respond_refreshToken_failed resume_returned_false
      run_Cons run_Nil logged_out_logout exposed_logout timer_after_logout
      updateToken_after_logout logout_simps del: step.simps(7))

text \<open>The amended statement at \<open>renewing\<close> for the timer's request and at \<open>reloaded\<close> for
  the start-up request; both sessions are authenticated with one request in flight.\<close>

theorem renewal_failure_logs_out_witness:
  "(0::nat) < length (pending renewing) \<and>
   pending renewing ! 0 = Post K_updateToken (RefreshGrant ''r1'') \<and>
   isAuthenticated renewing \<and>
   step sample_builtins renewing (Respond 0 (Failed NetworkUnavailable)) = logout (renewing\<lparr>pending := []\<rparr>) \<and>
   (0::nat) < length (pending reloaded) \<and>
   pending reloaded ! 0 = Post K_refreshToken (RefreshGrant ''r1'') \<and>
   isAuthenticated reloaded \<and>
   run sample_builtins reloaded [Respond 0 (Failed NetworkUnavailable), Resume 0] = logout (reloaded\<lparr>pending := []\<rparr>) \<and>
   logged_out (logout (renewing\<lparr>pending := []\<rparr>)) \<and>
   step sample_builtins (logout (renewing\<lparr>pending := []\<rparr>)) TimerFire = logout (renewing\<lparr>pending := []\<rparr>)"
proof -
  have l1: "(0::nat) < length (pending renewing)" and q1: "pending renewing ! 0 = Post K_updateToken (RefreshGrant ''r1'')"
    and d1: "drop_nth 0 (pending renewing) = []"
    by (simp_all add: renewing_fields drop_nth_def)
  have l2: "(0::nat) < length (pending reloaded)" and q2: "pending reloaded ! 0 = Post K_refreshToken (RefreshGrant ''r1'')"
    and d2: "drop_nth 0 (pending reloaded) = []"
    by (simp_all add: reloaded_fields drop_nth_def)
  note w1 = renewal_failure_logs_out [OF l1, of "RefreshGrant ''r1''" sample_builtins NetworkUnavailable 60, unfolded d1]
  note w2 = renewal_failure_logs_out [OF l2, of "RefreshGrant ''r1''" sample_builtins NetworkUnavailable 60, unfolded d2]
  have a: "step sample_builtins renewing (Respond 0 (Failed NetworkUnavailable)) = logout (renewing\<lparr>pending := []\<rparr>)"
    using w1 q1 by blast
  have b: "run sample_builtins reloaded [Respond 0 (Failed NetworkUnavailable), Resume 0] = logout (reloaded\<lparr>pending := []\<rparr>)"
    using w2 q2 by blast
  have c: "logged_out (logout (renewing\<lparr>pending := []\<rparr>))"
    "step sample_builtins (logout (renewing\<lparr>pending := []\<rparr>)) TimerFire = logout (renewing\<lparr>pending := []\<rparr>)"
    using w1 by blast+
  show ?thesis
    using l1 q1 l2 q2 a b c renewing_fields(1) reloaded_fields(1) by blast
qed

section \<open>A renewal that is rejected\<close>

text \<open>
  C5, as stated, is false in its last part: after the answer \<open>InvalidGrant\<close> the session
  \<open>renewing\<close> is logged out, yet no listener has been invoked.
\<close>

theorem hard_failure_no_listener:
  "logged_out (run sample_builtins logged_in [TimerFire, Respond 0 (Failed InvalidGrant)]) \<and>
   listener_calls (run sample_builtins logged_in [TimerFire, Respond 0 (Failed InvalidGrant)]) = 0"
proof -
  have "logged_out (run sample_builtins logged_in [TimerFire, Respond 0 (Failed InvalidGrant)])"
    by (simp only: failed_renewal logged_out_logout)
  moreover have "listener_calls (run sample_builtins logged_in [TimerFire, Respond 0 (Failed InvalidGrant)]) = 0"
    by (simp only: run_no_listener listener_calls_logged_in)
  ultimately show ?thesis by blast
qed

text \<open>
  C5, amended: when a renewal attempt fails, be it the request of \<^verbatim>\<open>updateToken\<close> or
  the one of the start-up check, and whatever the failure, the session becomes logged out
  through the one function \<^verbatim>\<open>logout\<close>: the resulting state is \<open>after_failure i s\<close> on
  both paths (on the second, the failure response first only hands \<^verbatim>\<open>false\<close> to the
  waiting check and leaves the credential as it was). In that state both entries are gone
  from storage, the token in memory is cleared and the flag is lowered, so nothing is
  provided to the rest of the application; \<^verbatim>\<open>logout\<close> runs in one step, so no state
  with only part of this done is observable. The only effects are the two removals: no
  listener is invoked.
\<close>

theorem hard_failure_logout:
  assumes "i < length (pending s)"
  shows
    "(pending s ! i = Post K_updateToken g \<longrightarrow> step B s (Respond i (Failed e)) = after_failure i s) \<and>
     (pending s ! i = Post K_refreshToken g \<longrightarrow>
        step B s (Respond i (Failed e)) = s\<lparr>pending := (pending s)[i := RefreshReturnedFalse]\<rparr> \<and>
        run B s [Respond i (Failed e), Resume i] = after_failure i s) \<and>
     storage (after_failure i s) ''token'' = None \<and> storage (after_failure i s) ''refresh_token'' = None \<and>
     token (after_failure i s) = None \<and> \<not> isAuthenticated (after_failure i s) \<and> provided r (after_failure i s) = None \<and>
     trace (after_failure i s) = trace s @ [RemoveItem ''token'', RemoveItem ''refresh_token''] \<and>
     listener_calls (after_failure i s) = listener_calls s"
  using assms
  by (simp add: respond_updateToken_failed respond_refreshToken_failed resume_returned_false
      run_Cons run_Nil exposed_logout logout_simps listener_calls_logout listener_calls_def)

text \<open>The amended statement at \<open>renewing\<close> and at \<open>reloaded\<close>.\<close>

theorem hard_failure_logout_witness:
  "(0::nat) < length (pending renewing) \<and>
   pending renewing ! 0 = Post K_updateToken (RefreshGrant ''r1'') \<and>
   step sample_builtins renewing (Respond 0 (Failed InvalidGrant)) = logout (renewing\<lparr>pending := []\<rparr>) \<and>
   (0::nat) < length (pending reloaded) \<and>
   pending reloaded ! 0 = Post K_refreshToken (RefreshGrant ''r1'') \<and>
   run sample_builtins reloaded [Respond 0 (Failed InvalidGrant), Resume 0] = logout (reloaded\<lparr>pending := []\<rparr>) \<and>
   listener_calls (logout (renewing\<lparr>pending := []\<rparr>)) = 0 \<and>
   listener_calls (logout (reloaded\<lparr>pending := []\<rparr>)) = 0"
proof -
  have l1: "(0::nat) < length (pending renewing)" and q1: "pending renewing ! 0 = Post K_updateToken (RefreshGrant ''r1'')"
    and d1: "drop_nth 0 (pending renewing) = []"
    by (simp_all add: renewing_fields drop_nth_def)
  have l2: "(0::nat) < length (pending reloaded)" and q2: "pending reloaded ! 0 = Post K_refreshToken (RefreshGrant ''r1'')"
    and d2: "drop_nth 0 (pending reloaded) = []"
    by (simp_all add: reloaded_fields drop_nth_def)
  note w1 = hard_failure_logout [OF l1, of "RefreshGrant ''r1''" sample_builtins InvalidGrant None, unfolded d1]
  note w2 = hard_failure_logout [OF l2, of "RefreshGrant ''r1''" sample_builtins InvalidGrant None, unfolded d2]
  have a: "step sample_builtins renewing (Respond 0 (Failed InvalidGrant)) = logout (renewing\<lparr>pending := []\<rparr>)"
    using w1 q1 by blast
  have b: "run sample_builtins reloaded [Respond 0 (Failed InvalidGrant), Resume 0] = logout (reloaded\<lparr>pending := []\<rparr>)"
    using w2 q2 by blast
  have c: "listener_calls (logout (renewing\<lparr>pending := []\<rparr>)) = listener_calls renewing"
    "listener_calls (logout (reloaded\<lparr>pending := []\<rparr>)) = listener_calls reloaded"
    using w1 w2 by blast+
  show ?thesis
    using l1 q1 l2 q2 a b c by (simp only: listener_calls_renewing listener_calls_reloaded simp_thms)
qed

section \<open>The timer and the expiry margin\<close>

text \<open>
  C3, as stated, is false: the timer does not look at the expiry. In the session
  \<open>logged_in\<close> at time 0 the token has an hour to live, the code's own check keeps it,
  and a timer fire sends a refresh request all the same.
\<close>

theorem timer_renews_far_from_expiry:
  "isAuthenticated logged_in \<and> token logged_in = Some access_3600 \<and>
   checkTokenValidity sample_builtins 0 access_3600 = Keep \<and>
   \<not> near_expiry (Fin 3600) 0 \<and>
   trace (step sample_builtins logged_in TimerFire) = trace logged_in @ [HttpPost (RefreshGrant ''r1'')]"
  by (simp add: logged_in_fields check_access_3600 near_expiry_3600 updateToken_present post_simps)

text \<open>
  C3, amended: while the session is authenticated, a timer fire sends a refresh-grant
  request with the stored renewal token exactly when storage holds a non-empty renewal
  token, whatever the time left before expiry; the session stays authenticated with the
  same credential exposed and the request in flight. With no renewal token, or an empty
  one, the timer fire changes nothing.
\<close>

theorem timer_fire_always_renews:
  assumes "isAuthenticated s"
  shows
    "(storage s ''refresh_token'' = Some v \<and> v \<noteq> [] \<longrightarrow>
        step B s TimerFire = post K_updateToken (RefreshGrant v) s \<and>
        isAuthenticated (step B s TimerFire) \<and>
        exposed (step B s TimerFire) = exposed s \<and>
        pending (step B s TimerFire) = pending s @ [Post K_updateToken (RefreshGrant v)] \<and>
        trace (step B s TimerFire) = trace s @ [HttpPost (RefreshGrant v)]) \<and>
     (\<not> truthy (storage s ''refresh_token'') \<longrightarrow> step B s TimerFire = s)"
  using assms
  by (simp add: updateToken_present updateToken_absent post_simps exposed_def)

text \<open>The amended statement at \<open>logged_in\<close>, whose token is far from expiry at time 0
  and close to it at time 3595000, and at the same session with an empty store.\<close>

theorem timer_fire_always_renews_witness:
  "isAuthenticated logged_in \<and> storage logged_in ''refresh_token'' = Some ''r1'' \<and> ''r1'' \<noteq> [] \<and>
   \<not> near_expiry (Fin 3600) 0 \<and> near_expiry (Fin 3600) 3595000 \<and>
   trace (step sample_builtins logged_in TimerFire) = trace logged_in @ [HttpPost (RefreshGrant ''r1'')] \<and>
   isAuthenticated (logged_in\<lparr>storage := Map.empty\<rparr>) \<and>
   \<not> truthy (storage (logged_in\<lparr>storage := Map.empty\<rparr>) ''refresh_token'') \<and>
   step sample_builtins (logged_in\<lparr>storage := Map.empty\<rparr>) TimerFire = logged_in\<lparr>storage := Map.empty\<rparr>"
proof -
  have a: "isAuthenticated logged_in" and r: "storage logged_in ''refresh_token'' = Some ''r1'' \<and> ''r1'' \<noteq> []"
    by (simp_all add: logged_in_fields)
  have a': "isAuthenticated (logged_in\<lparr>storage := Map.empty\<rparr>)"
    and r': "\<not> truthy (storage (logged_in\<lparr>storage := Map.empty\<rparr>) ''refresh_token'')"
    by (simp_all add: logged_in_fields truthy_def)
  have 1: "trace (step sample_builtins logged_in TimerFire) = trace logged_in @ [HttpPost (RefreshGrant ''r1'')]"
    using timer_fire_always_renews [OF a, of "''r1''" sample_builtins] r by blast
  have 2: "step sample_builtins (logged_in\<lparr>storage := Map.empty\<rparr>) TimerFire = logged_in\<lparr>storage := Map.empty\<rparr>"
    using timer_fire_always_renews [OF a', of "''r1''" sample_builtins] r' by blast
  show ?thesis
    using a r a' r' 1 2 near_expiry_3600 by blast
qed

section \<open>Which tokens the check rejects\<close>

text \<open>
  C4, as stated, is false: the check keeps a token of two segments, a token whose middle
  segment holds a space, which base64url does not allow, and a token whose payload is the
  empty object, with no expiry.
\<close>

theorem malformed_tokens_accepted:
  "length (split_dot ''h.eyJleHAiOjM2MDB9'') = 2 \<and>
   checkTokenValidity sample_builtins 0 ''h.eyJleHAiOjM2MDB9'' = Keep \<and>
   CHR '' '' \<in> set (claim_segment ''h.eyJleHAi OjM2MDB9.s'') \<and>
   checkTokenValidity sample_builtins 0 ''h.eyJleHAi OjM2MDB9.s'' = Keep \<and>
   atob (claim_segment ''h.e30.s'') = Some ''{}'' \<and>
   JSON_parse sample_builtins ''{}'' = Some (JObj []) \<and>
   checkTokenValidity sample_builtins 0 ''h.e30.s'' = Keep"
proof -
  have 1: "checkTokenValidity sample_builtins 0 ''h.eyJleHAiOjM2MDB9'' = Keep"
    by (simp add: check_numeric_exp [OF _ parse_payload_3600] claim_segment_two
        atob_payload_3600 near_expiry_3600)
  have 2: "checkTokenValidity sample_builtins 0 ''h.eyJleHAi OjM2MDB9.s'' = Keep"
    by (simp add: check_numeric_exp [OF _ parse_payload_3600] claim_segment_spaced
        atob_spaced near_expiry_3600)
  have s3: "claim_segment ''h.e30.s'' = ''e30''"
    by (simp add: claim_segment_def split_dot_def)
  have p3: "JSON_parse sample_builtins ''{}'' = Some (JObj [])"
    by (simp add: sample_builtins_def sample_parse_def)
  have 3: "checkTokenValidity sample_builtins 0 ''h.e30.s'' = Keep"
    by (simp add: checkTokenValidity_def s3 atob_e30 p3 near_expiry_def)
  show ?thesis
    using 1 2 3 p3 by (simp add: s3 atob_e30 claim_segment_spaced split_dot_def)
qed

text \<open>
  C4, amended: the check reads the second segment of the token between dots and nothing
  else, so neither the signature nor the number of segments counts, as long as there is a
  second one. It fails when the token has fewer than two segments, when \<^verbatim>\<open>atob\<close>,
  the decoder of the standard base64 alphabet, rejects the segment, and when
  \<^verbatim>\<open>JSON.parse\<close> rejects the decoded text. On a payload that is an object with a numeric
  \<^verbatim>\<open>exp\<close> it does not fail and decides by the expiry.
\<close>

theorem decode_failures:
  "(length (split_dot t) < 2 \<longrightarrow> checkTokenValidity B now t = Throws) \<and>
   (atob (claim_segment t) = None \<longrightarrow> checkTokenValidity B now t = Throws) \<and>
   (atob (claim_segment t) = Some p \<and> JSON_parse B p = None \<longrightarrow>
      checkTokenValidity B now t = Throws) \<and>
   (atob (claim_segment t) = Some p \<and> JSON_parse B p = Some (JObj kvs) \<and>
    map_of kvs ''exp'' = Some (JNum n) \<longrightarrow>
      checkTokenValidity B now t = (if near_expiry n now then Refresh else Keep)) \<and>
   (claim_segment t' = claim_segment t \<longrightarrow>
      checkTokenValidity B now t' = checkTokenValidity B now t)"
  using check_Throws_atob [of t B now] check_Throws_parse [of t p B now]
    check_numeric_exp [of t p B kvs n now] check_segment_only [of t' t B now]
    claim_segment_short [of t] atob_undefined
  by auto

text \<open>The amended statement at a token without a dot, a token with the URL-safe
  characters, a token whose payload is not JSON, the token \<open>access_3600\<close> at two times,
  and a token with another signature.\<close>

theorem decode_failures_witness:
  "length (split_dot ''garbage'') < 2 \<and> checkTokenValidity sample_builtins 0 ''garbage'' = Throws \<and>
   atob (claim_segment ''h.a-b_.s'') = None \<and> checkTokenValidity sample_builtins 0 ''h.a-b_.s'' = Throws \<and>
   atob (claim_segment ''h.aGk.s'') = Some ''hi'' \<and> JSON_parse sample_builtins ''hi'' = None \<and>
   checkTokenValidity sample_builtins 0 ''h.aGk.s'' = Throws \<and>
   atob (claim_segment access_3600) = Some payload_3600 \<and>
   JSON_parse sample_builtins payload_3600 = Some (JObj [(''exp'', JNum (Fin 3600))]) \<and>
   checkTokenValidity sample_builtins 0 access_3600 = Keep \<and>
   checkTokenValidity sample_builtins 3595000 access_3600 = Refresh \<and>
   claim_segment ''h.eyJleHAiOjM2MDB9.other'' = claim_segment access_3600 \<and>
   checkTokenValidity sample_builtins 0 ''h.eyJleHAiOjM2MDB9.other'' = checkTokenValidity sample_builtins 0 access_3600"
proof -
  have g: "length (split_dot ''garbage'') < 2"
    by (simp add: split_dot_def)
  have u: "atob (claim_segment ''h.a-b_.s'') = None"
    by (simp add: claim_segment_def split_dot_def atob_def strip_padding_def ascii_whitespace_def
        b64_value_def)
  have h: "atob (claim_segment ''h.aGk.s'') = Some ''hi''"
    by (simp add: claim_segment_def split_dot_def atob_hi)
  have hp: "JSON_parse sample_builtins ''hi'' = None"
    by (simp add: sample_builtins_def sample_parse_def payload_3600_def)
  have a: "atob (claim_segment access_3600) = Some payload_3600"
    by (simp add: claim_segment_access_3600 atob_payload_3600)
  have m: "map_of [(''exp'', JNum (Fin 3600))] ''exp'' = Some (JNum (Fin 3600))"
    by simp
  have c: "claim_segment ''h.eyJleHAiOjM2MDB9.other'' = claim_segment access_3600"
    by (simp add: claim_segment_access_3600) (simp add: claim_segment_def split_dot_def)
  have 1: "checkTokenValidity sample_builtins 0 ''garbage'' = Throws"
    using decode_failures [of "''garbage''" sample_builtins 0] g by blast
  have 2: "checkTokenValidity sample_builtins 0 ''h.a-b_.s'' = Throws"
    using decode_failures [of "''h.a-b_.s''" sample_builtins 0] u by blast
  have 3: "checkTokenValidity sample_builtins 0 ''h.aGk.s'' = Throws"
    using decode_failures [of "''h.aGk.s''" sample_builtins 0 "''hi''"] h hp by blast
  have 4: "checkTokenValidity sample_builtins 0 access_3600 = Keep"
    using decode_failures [of access_3600 sample_builtins 0 payload_3600
        "[(''exp'', JNum (Fin 3600))]" "Fin 3600"] a parse_payload_3600 m near_expiry_3600
    by simp
  have 5: "checkTokenValidity sample_builtins 3595000 access_3600 = Refresh"
    using decode_failures [of access_3600 sample_builtins 3595000 payload_3600
        "[(''exp'', JNum (Fin 3600))]" "Fin 3600"] a parse_payload_3600 m near_expiry_3600
    by simp
  have 6: "checkTokenValidity sample_builtins 0 ''h.eyJleHAiOjM2MDB9.other'' = checkTokenValidity sample_builtins 0 access_3600"
    using decode_failures [of access_3600 sample_builtins 0 _ _ _ "''h.eyJleHAiOjM2MDB9.other''"] c by blast
  show ?thesis
    using g u h hp a parse_payload_3600 c 1 2 3 4 5 6 by blast
qed

section \<open>A rejected login\<close>

text \<open>
  C6. The login form, the only caller of \<^verbatim>\<open>login\<close> in the application, is rendered
  while the session is not authenticated. The call of \<^verbatim>\<open>login\<close> sends the password
  grant and writes nothing to storage. When the grant is rejected, whatever the failure,
  the continuation only drops the answered request, sets the error message, which is not
  empty, and ends the loading state: storage and the effects on it are unchanged, nothing
  is written, overwritten or removed, and the token and the flag are as before, so a
  session that was logged out is still logged out and exposes nothing. A whole attempt,
  the call and the rejection that answers it, changes the error message, the loading
  state and the trace, by the one request, and nothing else.
\<close>

theorem rejected_login_changes_no_store:
  assumes "i < length (pending t)" and "pending t ! i = Post K_login g"
  shows
    "storage (login s) = storage s \<and> isAuthenticated (login s) = isAuthenticated s \<and>
     token (login s) = token s \<and>
     trace (login s) = trace s @ [HttpPost (PasswordGrant (username s) (password s))] \<and>
     step B t (Respond i (Failed e)) =
       t\<lparr>pending := drop_nth i (pending t), error := login_error, loading := False\<rparr> \<and>
     storage (step B t (Respond i (Failed e))) = storage t \<and>
     trace (step B t (Respond i (Failed e))) = trace t \<and>
     token (step B t (Respond i (Failed e))) = token t \<and>
     isAuthenticated (step B t (Respond i (Failed e))) = isAuthenticated t \<and>
     error (step B t (Respond i (Failed e))) = login_error \<and> login_error \<noteq> [] \<and>
     (\<not> isAuthenticated t \<longrightarrow> exposed (step B t (Respond i (Failed e))) = None) \<and>
     (logged_out t \<longrightarrow> logged_out (step B t (Respond i (Failed e)))) \<and>
     run B s [Login, Respond (length (pending s)) (Failed e)] =
       s\<lparr>error := login_error, loading := False,
         trace := trace s @ [HttpPost (PasswordGrant (username s) (password s))]\<rparr>"
  using assms
  by (simp add: respond_login_failed login_def post_simps login_error_nonempty exposed_def
      logged_out_def login_then_rejected)

text \<open>At \<open>authenticating\<close>, with the answer \<open>InvalidCredentials\<close>.\<close>

theorem rejected_login_changes_no_store_witness:
  "(0::nat) < length (pending authenticating) \<and>
   pending authenticating ! 0 = Post K_login (PasswordGrant ''alice'' ''wrong'') \<and>
   logged_out authenticating \<and>
   logged_out (step sample_builtins authenticating (Respond 0 (Failed InvalidCredentials))) \<and>
   exposed (step sample_builtins authenticating (Respond 0 (Failed InvalidCredentials))) = None \<and>
   storage (step sample_builtins authenticating (Respond 0 (Failed InvalidCredentials))) = storage authenticating \<and>
   trace (step sample_builtins authenticating (Respond 0 (Failed InvalidCredentials))) = [HttpPost (PasswordGrant ''alice'' ''wrong'')] \<and>
   error (step sample_builtins authenticating (Respond 0 (Failed InvalidCredentials))) = login_error"
proof -
  have l: "(0::nat) < length (pending authenticating)"
    and q: "pending authenticating ! 0 = Post K_login (PasswordGrant ''alice'' ''wrong'')"
    by (simp_all add: authenticating_fields)
  note w = rejected_login_changes_no_store [OF l q, of _ sample_builtins InvalidCredentials]
  have "logged_out (step sample_builtins authenticating (Respond 0 (Failed InvalidCredentials)))"
    "exposed (step sample_builtins authenticating (Respond 0 (Failed InvalidCredentials))) = None"
    "storage (step sample_builtins authenticating (Respond 0 (Failed InvalidCredentials))) = storage authenticating"
    "trace (step sample_builtins authenticating (Respond 0 (Failed InvalidCredentials))) = trace authenticating"
    "error (step sample_builtins authenticating (Respond 0 (Failed InvalidCredentials))) = login_error"
    using w authenticating_fields(1,2) by blast+
  then show ?thesis
    using l q authenticating_fields(2) by (simp only: authenticating_fields(4) simp_thms)
qed

section \<open>The credential store\<close>

text \<open>
  C7, as stated, is false in its second half: reading the store performs no
  deserialization, and a stored token that cannot be decoded is read back as present.
\<close>

theorem corrupt_token_loaded:
  "load corrupt = Some (''garbage'', None) \<and>
   checkTokenValidity sample_builtins 0 ''garbage'' = Throws"
  by (simp add: load_def corrupt_def check_garbage)

text \<open>
  C7, amended: the store round-trips: after \<open>save\<close> of a credential with a non-empty
  access token, \<open>load\<close> returns that credential; \<open>save\<close> overwrites the two entries.
  \<open>load\<close> returns absent exactly when the access-token entry is missing or empty, and
  otherwise the two stored strings as they are, corrupt or not. A stored token that cannot
  be decoded is read as present and rejected by the start-up check within the same step:
  the session ends logged out, nothing is exposed, and no error is shown to the user.
\<close>

theorem store_round_trip:
  "(a \<noteq> [] \<longrightarrow> load (storage (save a r s)) = Some (a, Some r)) \<and>
   storage (save a r s) = (storage s)(''token'' \<mapsto> a, ''refresh_token'' \<mapsto> r) \<and>
   (load st = None) = (\<not> truthy (st ''token'')) \<and>
   (truthy (st ''token'') \<longrightarrow> load st = Some (the (st ''token''), st ''refresh_token'')) \<and>
   (st ''token'' = Some t \<and> t \<noteq> [] \<and> checkTokenValidity B now t = Throws \<longrightarrow>
      load st = Some (t, st ''refresh_token'') \<and>
      logged_out (step B (init st) (Mount now)) \<and>
      exposed (step B (init st) (Mount now)) = None \<and>
      error (step B (init st) (Mount now)) = [])"
proof -
  have "st ''token'' = Some t \<Longrightarrow> t \<noteq> [] \<Longrightarrow> checkTokenValidity B now t = Throws \<Longrightarrow>
      step B (init st) (Mount now) = logout ((init st)\<lparr>token := Some t, isAuthenticated := True\<rparr>)"
    by (simp add: mount_present init_def)
  then show ?thesis
    by (auto simp add: load_def save_def truthy_def logged_out_logout exposed_logout logout_simps
        init_def split: option.splits)
qed

text \<open>The amended statement at the token \<open>access_3600\<close>, at the empty store and at
  the store \<open>corrupt\<close>.\<close>

theorem store_round_trip_witness:
  "access_3600 \<noteq> [] \<and>
   load (storage (save access_3600 ''r1'' (init Map.empty))) = Some (access_3600, Some ''r1'') \<and>
   load Map.empty = None \<and>
   corrupt ''token'' = Some ''garbage'' \<and> ''garbage'' \<noteq> [] \<and>
   checkTokenValidity sample_builtins 0 ''garbage'' = Throws \<and>
   load corrupt = Some (''garbage'', None) \<and>
   logged_out (step sample_builtins (init corrupt) (Mount 0)) \<and>
   error (step sample_builtins (init corrupt) (Mount 0)) = []"
proof -
  have n: "access_3600 \<noteq> []"
    by (simp add: access_3600_def)
  have c: "corrupt ''token'' = Some ''garbage'' \<and> ''garbage'' \<noteq> [] \<and>
      checkTokenValidity sample_builtins 0 ''garbage'' = Throws"
    by (simp add: corrupt_def check_garbage)
  have e: "\<not> truthy (Map.empty ''token'')"
    by (simp add: truthy_def)
  have r: "corrupt ''refresh_token'' = None"
    by (simp add: corrupt_def)
  have 1: "load (storage (save access_3600 ''r1'' (init Map.empty))) = Some (access_3600, Some ''r1'')"
    using store_round_trip [of access_3600 "''r1''" "init Map.empty"] n by blast
  have 2: "load Map.empty = None"
    using store_round_trip [of _ _ _ Map.empty] e by blast
  have 3: "load corrupt = Some (''garbage'', corrupt ''refresh_token'') \<and>
      logged_out (step sample_builtins (init corrupt) (Mount 0)) \<and>
      error (step sample_builtins (init corrupt) (Mount 0)) = []"
    using store_round_trip [of _ _ _ corrupt "''garbage''" sample_builtins 0] c by blast
  show ?thesis
    using n c 1 2 3 by (simp only: r simp_thms)
qed

section \<open>What the provided object can do\<close>

text \<open>
  C8, as stated, is false: the object handed to the collaborators carries \<^verbatim>\<open>logout\<close>.
  Called on the object provided in the session \<open>logged_in\<close>, it ends the session and
  removes the stored token.
\<close>

theorem facade_logout_mutates:
  "provided (Some ''r1'') logged_in = Some (keycloak (Some ''r1'') logged_in) \<and>
   isAuthenticated logged_in \<and> storage logged_in ''token'' = Some access_3600 \<and>
   \<not> isAuthenticated (kc_logout (keycloak (Some ''r1'') logged_in) logged_in) \<and>
   storage (kc_logout (keycloak (Some ''r1'') logged_in) logged_in) ''token'' = None"
  by (simp add: provided_def keycloak_def logged_in_fields logout_simps)

text \<open>
  C8, amended: the object is provided while the session is authenticated. Its three data
  members are read-only snapshots: the token and the flag of the session, and the renewal
  token as read at the render. Its three operations are the component's own and change
  the session and the store: \<^verbatim>\<open>logout\<close> ends the session and removes both entries,
  \<^verbatim>\<open>login\<close> sends a password grant and starts the loading state, and
  \<^verbatim>\<open>updateToken\<close> sends a refresh request whenever a non-empty renewal token is stored.
\<close>

theorem facade_members:
  "(provided r s = (if isAuthenticated s then Some (keycloak r s) else None)) \<and>
   kc_token (keycloak r s) = token s \<and>
   kc_refreshToken (keycloak r s) = r \<and>
   kc_authenticated (keycloak r s) = isAuthenticated s \<and>
   kc_logout (keycloak r s) s = logout s \<and>
   logged_out (kc_logout (keycloak r s) s) \<and>
   trace (kc_logout (keycloak r s) s) = trace s @ [RemoveItem ''token'', RemoveItem ''refresh_token''] \<and>
   kc_login (keycloak r s) s =
     post K_login (PasswordGrant (username s) (password s)) (s\<lparr>loading := True, error := []\<rparr>) \<and>
   kc_updateToken (keycloak r s) m s = updateToken m s \<and>
   (storage s ''refresh_token'' = Some v \<and> v \<noteq> [] \<longrightarrow>
      kc_updateToken (keycloak r s) m s = post K_updateToken (RefreshGrant v) s)"
  by (simp add: provided_def keycloak_def logged_out_logout logout_simps login_def
      updateToken_present)

text \<open>The amended statement at \<open>logged_in\<close>.\<close>

theorem facade_members_witness:
  "storage logged_in ''refresh_token'' = Some ''r1'' \<and> ''r1'' \<noteq> [] \<and>
   provided (Some ''r1'') logged_in = Some (keycloak (Some ''r1'') logged_in) \<and>
   pending (kc_updateToken (keycloak (Some ''r1'') logged_in) 60 logged_in) = [Post K_updateToken (RefreshGrant ''r1'')] \<and>
   logged_out (kc_logout (keycloak (Some ''r1'') logged_in) logged_in)"
proof -
  have r: "storage logged_in ''refresh_token'' = Some ''r1'' \<and> ''r1'' \<noteq> []"
    by (simp add: logged_in_fields)
  note w = facade_members [of "Some ''r1''" logged_in 60 "''r1''"]
  have 1: "provided (Some ''r1'') logged_in = Some (keycloak (Some ''r1'') logged_in)"
    using w logged_in_fields(1) by simp
  have 2: "kc_updateToken (keycloak (Some ''r1'') logged_in) 60 logged_in = post K_updateToken (RefreshGrant ''r1'') logged_in"
    using w r by blast
  have 3: "logged_out (kc_logout (keycloak (Some ''r1'') logged_in) logged_in)"
    using w by blast
  show ?thesis
    using r 1 3 by (simp add: 2 post_simps logged_in_fields)
qed

section \<open>The page load\<close>




end
